theory Spec2Isabelle
  imports Main
begin

section \<open>The gateway call orchestrator \<open>callGateway\<close>\<close>

text \<open>
  The TypeScript function \<open>callGateway\<close> builds one \<open>GatewayClient\<close>, arms one timer,
  starts the client and returns a promise. Everything after that happens in callbacks:
  the client's \<open>onHelloOk\<close> and \<open>onClose\<close> hooks, the continuation of the \<open>await\<close> inside
  \<open>onHelloOk\<close>, and the timer callback. JavaScript runs these one at a time, so the
  invocation is modelled as a state (the variables the closures share, plus a trace of
  the calls made to the outside) and a step function that runs one callback to its end.
\<close>

subsection \<open>Options and client configuration\<close>

text \<open>\<open>CallGatewayOptions\<close>: an optional property is an \<open>option\<close>, \<open>None\<close> for
  \<open>undefined\<close>. The type of \<open>params\<close> is \<open>unknown\<close>, here the type variable \<open>'p\<close>.
  The property \<open>method\<close> is the field \<open>rpc_method\<close>, \<open>method\<close> being an Isabelle keyword.\<close>

record 'p CallGatewayOptions =
  url :: "string option"
  token :: "string option"
  password :: "string option"
  rpc_method :: string
  params :: "'p option"
  expectFinal :: "bool option"
  timeoutMs :: "int option"
  clientName :: "string option"
  clientVersion :: "string option"
  platform :: "string option"
  mode :: "string option"
  instanceId :: "string option"
  minProtocol :: "int option"
  maxProtocol :: "int option"

text \<open>The data properties of the object literal passed to \<open>new GatewayClient\<close>.\<close>

record GatewayClientOptions =
  c_url :: "string option"
  c_token :: "string option"
  c_password :: "string option"
  c_instanceId :: string
  c_clientName :: string
  c_clientVersion :: string
  c_platform :: "string option"
  c_mode :: string
  c_minProtocol :: int
  c_maxProtocol :: int

text \<open>The two callbacks that the same object literal carries.\<close>

datatype hook = OnHelloOk | OnClose

text \<open>What \<open>callGateway\<close> imports and does not define: the constant
  \<open>PROTOCOL_VERSION\<close> of \<open>./protocol/index.js\<close>, and the string that a call of
  \<open>randomUUID()\<close> of \<open>node:crypto\<close> returns. Both are parameters of the model.\<close>

record imported =
  PROTOCOL_VERSION :: int
  randomUUID :: string

text \<open>The operator \<open>a ?? b\<close>: \<open>b\<close> only where \<open>a\<close> is \<open>undefined\<close>.\<close>

definition nullish :: "'a option \<Rightarrow> 'a \<Rightarrow> 'a" where
  "nullish a b = (case a of None \<Rightarrow> b | Some x \<Rightarrow> x)"

definition client_options :: "imported \<Rightarrow> 'p CallGatewayOptions \<Rightarrow> GatewayClientOptions" where
  "client_options im opts =
     \<lparr> c_url = url opts,
       c_token = token opts,
       c_password = password opts,
       c_instanceId = nullish (instanceId opts) (randomUUID im),
       c_clientName = nullish (clientName opts) ''cli'',
       c_clientVersion = nullish (clientVersion opts) ''dev'',
       c_platform = platform opts,
       c_mode = nullish (mode opts) ''cli'',
       c_minProtocol = nullish (minProtocol opts) (PROTOCOL_VERSION im),
       c_maxProtocol = nullish (maxProtocol opts) (PROTOCOL_VERSION im) \<rparr>"

definition timeout_of :: "'p CallGatewayOptions \<Rightarrow> int" where
  "timeout_of opts = nullish (timeoutMs opts) 10000"

subsection \<open>Errors, the timer, the trace\<close>

text \<open>\<open>Error msg\<close> is \<open>new Error(msg)\<close>. \<open>ReferenceError\<close> is what reading a \<open>const\<close>
  before its initialisation throws.\<close>

datatype jserror = Error string | ReferenceError string

text \<open>The binding \<open>const timer = setTimeout(...)\<close>. It is declared after the closures
  that read it, so it starts in its temporal dead zone. \<open>Pending due\<close>: the callback is
  scheduled for the time \<open>due\<close> (milliseconds since the invocation).\<close>

datatype timer = TDZ | Pending int | Cleared | Fired

text \<open>The calls to the outside and the flag assignment, in execution order.\<close>

datatype ('p, 'v) action =
    NewClient GatewayClientOptions "hook list"
  | SetTimeout int
  | ClientStart
  | ClientRequest string "'p option" "bool option"
  | MarkIgnoreClose
  | ClientStop
  | ClearTimeout
  | Resolve "'v option"
  | Reject jserror

text \<open>The variables of one invocation. \<open>awaiting\<close> counts the \<open>onHelloOk\<close> activations
  suspended at their \<open>await\<close>; \<open>now\<close> is the time since the invocation, in
  milliseconds.\<close>

record ('p, 'v) call =
  opts :: "'p CallGatewayOptions"
  settled :: bool
  ignoreClose :: bool
  timer :: timer
  awaiting :: nat
  now :: nat
  trace :: "('p, 'v) action list"

text \<open>A callback either returns or throws; the state it leaves is kept in both cases.\<close>

datatype ('p, 'v) completion = Normal "('p, 'v) call" | Throw jserror "('p, 'v) call"

definition emit :: "('p, 'v) action \<Rightarrow> ('p, 'v) call \<Rightarrow> ('p, 'v) call" where
  "emit a s = s\<lparr>trace := trace s @ [a]\<rparr>"

definition set_ignoreClose :: "('p, 'v) call \<Rightarrow> ('p, 'v) call" where
  "set_ignoreClose s = emit MarkIgnoreClose (s\<lparr>ignoreClose := True\<rparr>)"

definition client_stop :: "('p, 'v) call \<Rightarrow> ('p, 'v) call" where
  "client_stop s = emit ClientStop s"

text \<open>\<open>clearTimeout\<close> cancels a pending timer and does nothing to one that has fired.\<close>

definition clearTimeout :: "('p, 'v) call \<Rightarrow> ('p, 'v) call" where
  "clearTimeout s =
     emit ClearTimeout (s\<lparr>timer := (case timer s of Pending due \<Rightarrow> Cleared | t \<Rightarrow> t)\<rparr>)"

subsection \<open>The closures\<close>

text \<open>
  \<^verbatim>\<open>
  const stop = (err?: Error, value?: T) => {
    if (settled) return;
    settled = true;
    clearTimeout(timer);
    if (err) reject(err);
    else resolve(value as T);
  };
  \<close>
  An \<open>Error\<close> object is truthy, so \<open>if (err)\<close> tests for \<open>undefined\<close>.
\<close>

definition stop :: "jserror option \<Rightarrow> 'v option \<Rightarrow> ('p, 'v) call \<Rightarrow> ('p, 'v) completion" where
  "stop err val s =
     (if settled s then Normal s
      else let s1 = s\<lparr>settled := True\<rparr> in
        if timer s1 = TDZ then Throw (ReferenceError ''timer'') s1
        else let s2 = clearTimeout s1 in
          (case err of
             Some e \<Rightarrow> Normal (emit (Reject e) s2)
           | None \<Rightarrow> Normal (emit (Resolve val) s2)))"

text \<open>
  \<^verbatim>\<open>
  onHelloOk: async () => {
    try {
      const result = await client.request<T>(opts.method, opts.params, {
        expectFinal: opts.expectFinal,
      });
      ignoreClose = true;
      stop(undefined, result);
      client.stop();
    } catch (err) {
      ignoreClose = true;
      client.stop();
      stop(err as Error);
    }
  },
  \<close>
  The hook runs up to the \<open>await\<close>; the rest runs later, once, when the promise of
  \<open>client.request\<close> is fulfilled or rejected.
\<close>

definition onHelloOk :: "('p, 'v) call \<Rightarrow> ('p, 'v) completion" where
  "onHelloOk s =
     Normal (emit (ClientRequest (rpc_method (opts s)) (params (opts s)) (expectFinal (opts s)))
               (s\<lparr>awaiting := awaiting s + 1\<rparr>))"

definition onHelloOk_catch :: "jserror \<Rightarrow> ('p, 'v) call \<Rightarrow> ('p, 'v) completion" where
  "onHelloOk_catch err s = stop (Some err) None (client_stop (set_ignoreClose s))"

definition onHelloOk_try :: "'v \<Rightarrow> ('p, 'v) call \<Rightarrow> ('p, 'v) completion" where
  "onHelloOk_try result s =
     (case stop None (Some result) (set_ignoreClose s) of
        Normal s2 \<Rightarrow> Normal (client_stop s2)
      | Throw e s2 \<Rightarrow> onHelloOk_catch e s2)"

text \<open>Decimal rendering of the close code inside the template literal.\<close>

definition digit_char :: "nat \<Rightarrow> char" where
  "digit_char d =
     (if d = 0 then CHR ''0'' else if d = 1 then CHR ''1'' else if d = 2 then CHR ''2''
      else if d = 3 then CHR ''3'' else if d = 4 then CHR ''4'' else if d = 5 then CHR ''5''
      else if d = 6 then CHR ''6'' else if d = 7 then CHR ''7'' else if d = 8 then CHR ''8''
      else CHR ''9'')"

fun digits :: "nat \<Rightarrow> string" where
  "digits n = (if n < 10 then [digit_char n] else digits (n div 10) @ [digit_char (n mod 10)])"

declare digits.simps [simp del]

definition number_toString :: "int \<Rightarrow> string" where
  "number_toString i = (if i < 0 then CHR ''-'' # digits (nat (- i)) else digits (nat i))"

text \<open>
  \<^verbatim>\<open>
  onClose: (code, reason) => {
    if (settled || ignoreClose) return;
    stop(new Error(`gateway closed (${code}): ${reason}`));
  },
  \<close>
\<close>

definition close_error :: "int \<Rightarrow> string \<Rightarrow> jserror" where
  "close_error code reason =
     Error (''gateway closed ('' @ number_toString code @ ''): '' @ reason)"

definition onClose :: "int \<Rightarrow> string \<Rightarrow> ('p, 'v) call \<Rightarrow> ('p, 'v) completion" where
  "onClose code reason s =
     (if settled s \<or> ignoreClose s then Normal s
      else stop (Some (close_error code reason)) None s)"

text \<open>
  \<^verbatim>\<open>
  const timer = setTimeout(() => {
    ignoreClose = true;
    client.stop();
    stop(new Error("gateway timeout"));
  }, timeoutMs);
  \<close>
\<close>

definition timer_callback :: "('p, 'v) call \<Rightarrow> ('p, 'v) completion" where
  "timer_callback s =
     stop (Some (Error ''gateway timeout'')) None (client_stop (set_ignoreClose s))"

text \<open>
  \<open>setTimeout\<close> is the runtime's (Node). It keeps a delay up to \<open>TIMEOUT_MAX\<close>, which is
  \<open>2^31 - 1\<close> milliseconds, and replaces a larger one by 1 millisecond; \<open>callGateway\<close>
  passes \<open>timeoutMs\<close> on without a check, so the rule applies to it. The runtime also
  holds a delay below 1 millisecond back to the next turn of the event loop; the model
  lets such a timer run at once, which admits every order of callbacks that the runtime
  admits.
\<close>

definition TIMEOUT_MAX :: int where
  "TIMEOUT_MAX = 2147483647"

definition timer_delay :: "int \<Rightarrow> int" where
  "timer_delay ms = (if TIMEOUT_MAX < ms then 1 else ms)"

definition setTimeout :: "int \<Rightarrow> ('p, 'v) call \<Rightarrow> ('p, 'v) call" where
  "setTimeout ms s =
     emit (SetTimeout ms) (s\<lparr>timer := Pending (int (now s) + timer_delay ms)\<rparr>)"

subsection \<open>The body of \<open>callGateway\<close>\<close>

text \<open>The promise executor runs to its end before any callback: the state it leaves is
  the state in which the first callback runs.\<close>

definition callGateway :: "imported \<Rightarrow> 'p CallGatewayOptions \<Rightarrow> ('p, 'v) call" where
  "callGateway im options =
     (let ms = timeout_of options;
          s0 = \<lparr> opts = options, settled = False, ignoreClose = False, timer = TDZ,
                 awaiting = 0, now = 0, trace = [] \<rparr>;
          s1 = emit (NewClient (client_options im options) [OnHelloOk, OnClose]) s0;
          s2 = setTimeout ms s1;
          s3 = emit ClientStart s2
      in s3)"

subsection \<open>Callbacks as events\<close>

text \<open>
  The client and the runtime are not part of this file of the program; they are the
  environment, which delivers events. Two things are taken from it: the calls
  \<open>client.start()\<close>, \<open>client.stop()\<close>, \<open>client.request(...)\<close> and \<open>clearTimeout\<close> return
  without throwing (a failing request is a rejected promise), and the client calls a
  hook only once it has been started.

  What the event loop can run after the executor has returned. \<open>Tick d\<close>: \<open>d\<close>
  milliseconds pass. \<open>TimerFired\<close>: the timer callback, which the runtime runs only for
  a pending timer whose delay has elapsed. \<open>HelloOk\<close> and \<open>Close\<close>: the client calls the
  hook. \<open>RequestFulfilled\<close>, \<open>RequestRejected\<close>: a suspended \<open>onHelloOk\<close> resumes, which needs
  one to be suspended. An event that cannot happen leaves the state as it is.
\<close>

datatype 'v event =
    Tick nat
  | TimerFired
  | HelloOk
  | RequestFulfilled 'v
  | RequestRejected jserror
  | Close int string

definition timer_due :: "('p, 'v) call \<Rightarrow> bool" where
  "timer_due s = (case timer s of Pending due \<Rightarrow> due \<le> int (now s) | _ \<Rightarrow> False)"

fun step :: "'v event \<Rightarrow> ('p, 'v) call \<Rightarrow> ('p, 'v) completion" where
  "step (Tick d) s = Normal (s\<lparr>now := now s + d\<rparr>)"
| "step TimerFired s =
     (if timer_due s then timer_callback (s\<lparr>timer := Fired\<rparr>) else Normal s)"
| "step HelloOk s = onHelloOk s"
| "step (RequestFulfilled v) s =
     (if awaiting s = 0 then Normal s else onHelloOk_try v (s\<lparr>awaiting := awaiting s - 1\<rparr>))"
| "step (RequestRejected e) s =
     (if awaiting s = 0 then Normal s else onHelloOk_catch e (s\<lparr>awaiting := awaiting s - 1\<rparr>))"
| "step (Close code reason) s = onClose code reason s"

text \<open>A run is a sequence of events; an exception that escapes a callback ends it.\<close>

fun run :: "'v event list \<Rightarrow> ('p, 'v) call \<Rightarrow> ('p, 'v) completion" where
  "run [] s = Normal s"
| "run (e # es) s = (case step e s of Normal s' \<Rightarrow> run es s' | Throw x s' \<Rightarrow> Throw x s')"

text \<open>The calls of \<open>resolve\<close> and \<open>reject\<close> in a trace, and the calls of \<open>client.stop()\<close>.\<close>

fun is_settlement :: "('p, 'v) action \<Rightarrow> bool" where
  "is_settlement (Resolve v) = True"
| "is_settlement (Reject e) = True"
| "is_settlement _ = False"

definition settlements :: "('p, 'v) action list \<Rightarrow> ('p, 'v) action list" where
  "settlements tr = filter is_settlement tr"

definition stop_calls :: "('p, 'v) action list \<Rightarrow> nat" where
  "stop_calls tr = length (filter (\<lambda>a. a = ClientStop) tr)"

text \<open>The state a callback leaves, whether it returned or threw.\<close>

fun state_of :: "('p, 'v) completion \<Rightarrow> ('p, 'v) call" where
  "state_of (Normal s) = s"
| "state_of (Throw e s) = s"

text \<open>The three actions of the executor body.\<close>

fun is_setup :: "('p, 'v) action \<Rightarrow> bool" where
  "is_setup (NewClient cfg hs) = True"
| "is_setup (SetTimeout ms) = True"
| "is_setup ClientStart = True"
| "is_setup _ = False"

text \<open>The events that run a shutdown the orchestrator starts itself (the timer callback
  and the two continuations of \<open>onHelloOk\<close>), where they can happen.\<close>

fun runs_shutdown :: "'v event \<Rightarrow> ('p, 'v) call \<Rightarrow> bool" where
  "runs_shutdown TimerFired s = timer_due s"
| "runs_shutdown (RequestFulfilled v) s = (0 < awaiting s)"
| "runs_shutdown (RequestRejected e) s = (0 < awaiting s)"
| "runs_shutdown _ s = False"

text \<open>Which event accounts for which call of \<open>resolve\<close> or \<open>reject\<close>: success, application
  error, close error, timeout.\<close>

fun explains :: "'v event \<Rightarrow> ('p, 'v) action \<Rightarrow> bool" where
  "explains (RequestFulfilled v) a = (a = Resolve (Some v))"
| "explains (RequestRejected e) a = (a = Reject e)"
| "explains (Close code reason) a = (a = Reject (close_error code reason))"
| "explains TimerFired a = (a = Reject (Error ''gateway timeout''))"
| "explains _ a = False"

text \<open>What holds between callbacks, for a timer that is due at time \<open>ms\<close>.\<close>

definition call_inv :: "int \<Rightarrow> ('p, 'v) call \<Rightarrow> bool" where
  "call_inv ms s \<longleftrightarrow>
     (if settled s
      then (timer s = Cleared \<or> timer s = Fired) \<and> length (settlements (trace s)) = 1
      else timer s = Pending ms \<and> \<not> ignoreClose s \<and> stop_calls (trace s) = 0
           \<and> settlements (trace s) = [])"

text \<open>A sample invocation, \<open>callGateway({ method: "ping" })\<close>, for concrete runs.\<close>

definition example_options :: "string CallGatewayOptions" where
  "example_options =
     \<lparr> url = None, token = None, password = None, rpc_method = ''ping'', params = None,
       expectFinal = None, timeoutMs = None, clientName = None, clientVersion = None,
       platform = None, mode = None, instanceId = None, minProtocol = None,
       maxProtocol = None \<rparr>"

definition example_imports :: imported where
  "example_imports = \<lparr> PROTOCOL_VERSION = 1, randomUUID = ''0b5e6a7c'' \<rparr>"

section \<open>Properties\<close>

subsection \<open>Auxiliary facts\<close>

lemmas prims = emit_def set_ignoreClose_def client_stop_def clearTimeout_def stop_def

lemmas handlers = onHelloOk_def onHelloOk_catch_def onHelloOk_try_def onClose_def
  timer_callback_def timer_due_def

lemmas examples = example_options_def example_imports_def timeout_of_def nullish_def
  timer_delay_def TIMEOUT_MAX_def

lemma callGateway_state:
  "callGateway im options =
     \<lparr> opts = options, settled = False, ignoreClose = False,
       timer = Pending (timer_delay (timeout_of options)), awaiting = 0, now = 0,
       trace = [NewClient (client_options im options) [OnHelloOk, OnClose],
                SetTimeout (timeout_of options), ClientStart] \<rparr>"
  by (simp add: callGateway_def setTimeout_def emit_def Let_def)

lemma timer_delay_le: "timer_delay ms \<le> ms"
  by (simp add: timer_delay_def TIMEOUT_MAX_def)

lemma init_inv: "call_inv (timer_delay (timeout_of options)) (callGateway im options)"
  by (simp add: call_inv_def callGateway_state settlements_def stop_calls_def)

lemma step_inv: "call_inv ms s \<Longrightarrow> \<exists>s'. step ev s = Normal s' \<and> call_inv ms s'"
  by (cases ev)
    (auto simp: call_inv_def prims handlers settlements_def stop_calls_def Let_def
      split: if_splits)

lemma run_inv: "call_inv ms s \<Longrightarrow> \<exists>s'. run es s = Normal s' \<and> call_inv ms s'"
proof (induction es arbitrary: s)
  case Nil
  then show ?case by simp
next
  case (Cons e es)
  from step_inv [OF Cons.prems] obtain s1 where s1: "step e s = Normal s1" "call_inv ms s1"
    by blast
  from Cons.IH [OF s1(2)] show ?case using s1(1) by simp
qed

lemma run_append:
  "run (es @ fs) s = (case run es s of Normal s' \<Rightarrow> run fs s' | Throw x s' \<Rightarrow> Throw x s')"
  by (induction es arbitrary: s) (auto split: completion.splits)

lemma step_ignoreClose: "ignoreClose s \<Longrightarrow> ignoreClose (state_of (step ev s))"
  by (cases ev) (auto simp: prims handlers Let_def split: option.splits completion.splits)

lemma run_ignoreClose: "ignoreClose s \<Longrightarrow> ignoreClose (state_of (run es s))"
proof (induction es arbitrary: s)
  case Nil
  then show ?case by simp
next
  case (Cons e es)
  show ?case
  proof (cases "step e s")
    case (Normal s1)
    with step_ignoreClose [OF Cons.prems, of e] have "ignoreClose s1" by simp
    from Cons.IH [OF this] Normal show ?thesis by simp
  next
    case (Throw x s1)
    with step_ignoreClose [OF Cons.prems, of e] show ?thesis by simp
  qed
qed

lemma shutdown_marks: "runs_shutdown ev s \<Longrightarrow> ignoreClose (state_of (step ev s))"
  by (cases ev) (auto simp: prims handlers Let_def split: option.splits completion.splits)

lemma step_setup:
  "step ev s = Normal s' \<Longrightarrow> \<exists>ext. trace s' = trace s @ ext \<and> \<not> list_ex is_setup ext"
  by (cases ev)
    (auto simp: prims handlers Let_def split: option.splits completion.splits if_splits)

lemma run_setup:
  "run es s = Normal s' \<Longrightarrow> \<exists>ext. trace s' = trace s @ ext \<and> \<not> list_ex is_setup ext"
proof (induction es arbitrary: s)
  case Nil
  then show ?case by simp
next
  case (Cons e es)
  from Cons.prems obtain s1 where s1: "step e s = Normal s1" "run es s1 = Normal s'"
    by (auto split: completion.splits)
  from step_setup [OF s1(1)] obtain e1 where
    e1: "trace s1 = trace s @ e1" "\<not> list_ex is_setup e1"
    by blast
  from Cons.IH [OF s1(2)] obtain e2 where
    e2: "trace s' = trace s1 @ e2" "\<not> list_ex is_setup e2"
    by blast
  from e1 e2 have "trace s' = trace s @ (e1 @ e2) \<and> \<not> list_ex is_setup (e1 @ e2)"
    by (auto simp: list_ex_iff)
  then show ?case by blast
qed

lemma step_explains:
  "step ev s = Normal s' \<Longrightarrow>
     \<exists>ext. settlements (trace s') = settlements (trace s) @ ext
       \<and> (\<forall>a\<in>set ext. explains ev a)"
  by (cases ev)
    (auto simp: prims handlers settlements_def Let_def
      split: option.splits completion.splits if_splits)

lemma run_explains:
  "run es s = Normal s' \<Longrightarrow>
     \<forall>a\<in>set (settlements (trace s')).
       a \<in> set (settlements (trace s)) \<or> (\<exists>e\<in>set es. explains e a)"
proof (induction es arbitrary: s)
  case Nil
  then show ?case by simp
next
  case (Cons e es)
  from Cons.prems obtain s1 where s1: "step e s = Normal s1" "run es s1 = Normal s'"
    by (auto split: completion.splits)
  from step_explains [OF s1(1)] obtain ext where
    ext: "settlements (trace s1) = settlements (trace s) @ ext" "\<forall>a\<in>set ext. explains e a"
    by blast
  from Cons.IH [OF s1(2)] ext show ?case by auto
qed

lemma inv_timer_fires:
  "call_inv ms s \<Longrightarrow> \<not> settled s \<Longrightarrow> ms \<le> int (now s) \<Longrightarrow>
     step TimerFired s =
       Normal (s\<lparr>ignoreClose := True, settled := True, timer := Fired,
                 trace := trace s @ [MarkIgnoreClose, ClientStop, ClearTimeout,
                                     Reject (Error ''gateway timeout'')]\<rparr>)"
  by (simp add: call_inv_def prims handlers Let_def)

lemma inv_timer_early:
  "call_inv ms s \<Longrightarrow> \<not> settled s \<Longrightarrow> int (now s) < ms \<Longrightarrow> step TimerFired s = Normal s"
  by (simp add: call_inv_def prims handlers Let_def)

lemma inv_timer_settled:
  "call_inv ms s \<Longrightarrow> settled s \<Longrightarrow> step TimerFired s = Normal s"
  by (auto simp: call_inv_def prims handlers Let_def)

lemma inv_close:
  "call_inv ms s \<Longrightarrow> \<not> settled s \<Longrightarrow>
     step (Close code reason) s =
       Normal (s\<lparr>settled := True, timer := Cleared,
                 trace := trace s @ [ClearTimeout, Reject (close_error code reason)]\<rparr>)"
  by (simp add: call_inv_def prims handlers Let_def)

lemma inv_fulfilled:
  "call_inv ms s \<Longrightarrow> 0 < awaiting s \<Longrightarrow>
     step (RequestFulfilled v) s =
       Normal (if settled s
         then s\<lparr>awaiting := awaiting s - 1, ignoreClose := True,
                trace := trace s @ [MarkIgnoreClose, ClientStop]\<rparr>
         else s\<lparr>awaiting := awaiting s - 1, ignoreClose := True, settled := True,
                timer := Cleared,
                trace := trace s @ [MarkIgnoreClose, ClearTimeout, Resolve (Some v), ClientStop]\<rparr>)"
  by (simp add: call_inv_def prims handlers Let_def)

lemma inv_rejected:
  "call_inv ms s \<Longrightarrow> 0 < awaiting s \<Longrightarrow>
     step (RequestRejected e) s =
       Normal (if settled s
         then s\<lparr>awaiting := awaiting s - 1, ignoreClose := True,
                trace := trace s @ [MarkIgnoreClose, ClientStop]\<rparr>
         else s\<lparr>awaiting := awaiting s - 1, ignoreClose := True, settled := True,
                timer := Cleared,
                trace := trace s @ [MarkIgnoreClose, ClientStop, ClearTimeout, Reject e]\<rparr>)"
  by (simp add: call_inv_def prims handlers Let_def)

lemma reachable_inv:
  "run es (callGateway im options) = Normal s \<Longrightarrow>
     call_inv (timer_delay (timeout_of options)) s"
proof -
  assume r: "run es (callGateway im options) = Normal s"
  from run_inv [OF init_inv] obtain s' where
    "run es (callGateway im options) = Normal s'"
    "call_inv (timer_delay (timeout_of options)) s'"
    by blast
  with r show ?thesis by simp
qed

lemma inv_settlements:
  "call_inv ms s \<Longrightarrow>
     length (settlements (trace s)) \<le> 1 \<and> (settled s \<longleftrightarrow> length (settlements (trace s)) = 1)"
  by (cases "settled s") (simp_all add: call_inv_def)

lemma inv_due_settled:
  "call_inv ms s \<Longrightarrow> ms \<le> int (now s) \<Longrightarrow> step TimerFired s = Normal s' \<Longrightarrow> settled s'"
proof (cases "settled s")
  case True
  assume "call_inv ms s" "step TimerFired s = Normal s'"
  with True inv_timer_settled [of ms s] show ?thesis by simp
next
  case False
  assume "call_inv ms s" "ms \<le> int (now s)" "step TimerFired s = Normal s'"
  with False inv_timer_fires [of ms s] show ?thesis by auto
qed

lemma inv_unsettled_no_stop: "call_inv ms s \<Longrightarrow> \<not> settled s \<Longrightarrow> stop_calls (trace s) = 0"
  by (simp add: call_inv_def)

lemma settling_step:
  assumes i: "call_inv ms s" and u: "\<not> settled s"
    and st: "step ev s = Normal s'" and se: "settled s'"
  shows "stop_calls (trace s') = (case ev of Close code reason \<Rightarrow> 0 | _ \<Rightarrow> 1)
    \<and> (\<exists>ext. trace s' = trace s @ ext \<and> ClearTimeout \<in> set ext)
    \<and> (timer s' = Cleared \<or> timer s' = Fired)"
proof (cases ev)
  case (Tick d)
  with st u se show ?thesis by auto
next
  case TimerFired
  show ?thesis
  proof (cases "ms \<le> int (now s)")
    case True
    from inv_timer_fires [OF i u True] st TimerFired inv_unsettled_no_stop [OF i u]
    show ?thesis by (auto simp: stop_calls_def)
  next
    case False
    with inv_timer_early [OF i u] st TimerFired u se show ?thesis by auto
  qed
next
  case HelloOk
  with st u se show ?thesis by (auto simp: onHelloOk_def emit_def)
next
  case (RequestFulfilled v)
  show ?thesis
  proof (cases "0 < awaiting s")
    case True
    from inv_fulfilled [OF i True, of v] st RequestFulfilled u inv_unsettled_no_stop [OF i u]
    show ?thesis by (auto simp: stop_calls_def)
  next
    case False
    with st RequestFulfilled u se show ?thesis by auto
  qed
next
  case (RequestRejected e)
  show ?thesis
  proof (cases "0 < awaiting s")
    case True
    from inv_rejected [OF i True, of e] st RequestRejected u inv_unsettled_no_stop [OF i u]
    show ?thesis by (auto simp: stop_calls_def)
  next
    case False
    with st RequestRejected u se show ?thesis by auto
  qed
next
  case (Close code reason)
  from inv_close [OF i u, of code reason] st Close inv_unsettled_no_stop [OF i u]
  show ?thesis by (auto simp: stop_calls_def)
qed

lemma shutdown_trace:
  "runs_shutdown ev s \<Longrightarrow>
     \<exists>mid post. trace (state_of (step ev s)) = trace s @ MarkIgnoreClose # mid @ ClientStop # post
       \<and> ClientStop \<notin> set mid \<and> ClientStop \<notin> set post \<and> MarkIgnoreClose \<notin> set post"
proof (cases ev)
  case TimerFired
  assume "runs_shutdown ev s"
  with TimerFired have due: "timer_due s" by simp
  show ?thesis
  proof (cases "settled s")
    case True
    with due TimerFired
    have "trace (state_of (step ev s)) = trace s @ MarkIgnoreClose # [] @ ClientStop # []"
      by (simp add: prims handlers)
    then show ?thesis by (intro exI [of _ "[]"]) simp
  next
    case False
    with due TimerFired
    have "trace (state_of (step ev s)) = trace s @ MarkIgnoreClose # [] @ ClientStop #
        [ClearTimeout, Reject (Error ''gateway timeout'')]"
      by (simp add: prims handlers Let_def)
    then show ?thesis
      by (intro exI [of _ "[]"] exI [of _ "[ClearTimeout, Reject (Error ''gateway timeout'')]"])
        simp
  qed
next
  case (RequestFulfilled v)
  assume "runs_shutdown ev s"
  with RequestFulfilled have aw: "0 < awaiting s" by simp
  consider (old) "settled s" | (tdz) "\<not> settled s" "timer s = TDZ"
    | (live) "\<not> settled s" "timer s \<noteq> TDZ"
    by blast
  then show ?thesis
  proof cases
    case old
    with aw RequestFulfilled
    have "trace (state_of (step ev s)) = trace s @ MarkIgnoreClose # [] @ ClientStop # []"
      by (simp add: prims handlers)
    then show ?thesis by (intro exI [of _ "[]"]) simp
  next
    case tdz
    with aw RequestFulfilled
    have "trace (state_of (step ev s))
        = trace s @ MarkIgnoreClose # [MarkIgnoreClose] @ ClientStop # []"
      by (simp add: prims handlers Let_def)
    then show ?thesis by (intro exI [of _ "[MarkIgnoreClose]"] exI [of _ "[]"]) simp
  next
    case live
    with aw RequestFulfilled
    have "trace (state_of (step ev s))
        = trace s @ MarkIgnoreClose # [ClearTimeout, Resolve (Some v)] @ ClientStop # []"
      by (simp add: prims handlers Let_def)
    then show ?thesis
      by (intro exI [of _ "[ClearTimeout, Resolve (Some v)]"] exI [of _ "[]"]) simp
  qed
next
  case (RequestRejected e)
  assume "runs_shutdown ev s"
  with RequestRejected have aw: "0 < awaiting s" by simp
  consider (quiet) "settled s \<or> timer s = TDZ" | (live) "\<not> settled s" "timer s \<noteq> TDZ"
    by blast
  then show ?thesis
  proof cases
    case quiet
    with aw RequestRejected
    have "trace (state_of (step ev s)) = trace s @ MarkIgnoreClose # [] @ ClientStop # []"
      by (auto simp: prims handlers Let_def)
    then show ?thesis by (intro exI [of _ "[]"]) simp
  next
    case live
    with aw RequestRejected
    have "trace (state_of (step ev s))
        = trace s @ MarkIgnoreClose # [] @ ClientStop # [ClearTimeout, Reject e]"
      by (simp add: prims handlers Let_def)
    then show ?thesis
      by (intro exI [of _ "[]"] exI [of _ "[ClearTimeout, Reject e]"]) simp
  qed
qed simp_all

subsection \<open>Option defaults\<close>

text \<open>
  C7. Each option that is left out takes the default the code gives it: \<open>timeoutMs\<close>
  10000, \<open>instanceId\<close> the string that \<open>randomUUID()\<close> returns, \<open>clientName\<close> \<open>cli\<close>,
  \<open>clientVersion\<close> \<open>dev\<close>, \<open>mode\<close> \<open>cli\<close>, \<open>minProtocol\<close> and \<open>maxProtocol\<close> both
  \<open>PROTOCOL_VERSION\<close>. An option that is given is passed on as it is. These are the
  values with which the client is constructed and the timer is armed.
\<close>

theorem callGateway_defaults:
  "timeout_of (options\<lparr>timeoutMs := None\<rparr>) = 10000
   \<and> timeout_of (options\<lparr>timeoutMs := Some ms\<rparr>) = ms
   \<and> c_instanceId (client_options im (options\<lparr>instanceId := None\<rparr>)) = randomUUID im
   \<and> c_instanceId (client_options im (options\<lparr>instanceId := Some ident\<rparr>)) = ident
   \<and> c_clientName (client_options im (options\<lparr>clientName := None\<rparr>)) = ''cli''
   \<and> c_clientName (client_options im (options\<lparr>clientName := Some name\<rparr>)) = name
   \<and> c_clientVersion (client_options im (options\<lparr>clientVersion := None\<rparr>)) = ''dev''
   \<and> c_clientVersion (client_options im (options\<lparr>clientVersion := Some ver\<rparr>)) = ver
   \<and> c_mode (client_options im (options\<lparr>mode := None\<rparr>)) = ''cli''
   \<and> c_mode (client_options im (options\<lparr>mode := Some md\<rparr>)) = md
   \<and> c_minProtocol (client_options im (options\<lparr>minProtocol := None\<rparr>)) = PROTOCOL_VERSION im
   \<and> c_minProtocol (client_options im (options\<lparr>minProtocol := Some lo\<rparr>)) = lo
   \<and> c_maxProtocol (client_options im (options\<lparr>maxProtocol := None\<rparr>)) = PROTOCOL_VERSION im
   \<and> c_maxProtocol (client_options im (options\<lparr>maxProtocol := Some hi\<rparr>)) = hi
   \<and> take 2 (trace (callGateway im options :: ('p, 'v) call)) =
       [NewClient (client_options im options) [OnHelloOk, OnClose],
        SetTimeout (timeout_of options)]"
  by (simp add: timeout_of_def client_options_def nullish_def callGateway_state)

subsection \<open>Order of the executor body\<close>

text \<open>
  C8. The body of \<open>callGateway\<close> constructs the client with both hooks, then arms the
  timer, and calls \<open>client.start()\<close> last: its trace is exactly these three calls in this
  order, and the timer is pending when it ends. Whatever events follow, their effects
  come after the three calls, none of which is ever made again.
\<close>

theorem start_is_last:
  "trace (callGateway im options :: ('p, 'v) call) =
     [NewClient (client_options im options) [OnHelloOk, OnClose],
      SetTimeout (timeout_of options), ClientStart]
   \<and> timer (callGateway im options :: ('p, 'v) call)
       = Pending (timer_delay (timeout_of options))
   \<and> (\<exists>s rest. run es (callGateway im options :: ('p, 'v) call) = Normal s
         \<and> trace s = trace (callGateway im options :: ('p, 'v) call) @ rest
         \<and> \<not> list_ex is_setup rest)"
proof -
  from run_inv [OF init_inv] obtain s where
    s: "run es (callGateway im options :: ('p, 'v) call) = Normal s" by blast
  from run_setup [OF s] s show ?thesis by (auto simp: callGateway_state)
qed

subsection \<open>The ignore-close flag\<close>

text \<open>
  C10. \<open>ignoreClose\<close> is false when \<open>callGateway\<close> has run its body; no callback turns it
  from true to false; each shutdown that the orchestrator starts itself (timer callback,
  request fulfilled, request rejected) leaves it true. So after such a shutdown, and
  after any further events, a close notification changes nothing.
\<close>

theorem ignoreClose_monotone:
  "\<not> ignoreClose (callGateway im options)
   \<and> (ignoreClose s \<longrightarrow> ignoreClose (state_of (step ev s)))
   \<and> (runs_shutdown ev s \<longrightarrow>
        ignoreClose (state_of (run es (state_of (step ev s))))
        \<and> step (Close code reason) (state_of (run es (state_of (step ev s))))
            = Normal (state_of (run es (state_of (step ev s)))))"
proof -
  have "ignoreClose (state_of (run es (state_of (step ev s))))" if "runs_shutdown ev s"
    using run_ignoreClose [OF shutdown_marks [OF that]] .
  then show ?thesis
    by (simp add: callGateway_state step_ignoreClose onClose_def)
qed

theorem ignoreClose_monotone_witness:
  "ignoreClose (state_of (run [HelloOk, Tick 10000, TimerFired]
       (callGateway example_imports example_options :: (string, string) call)))
   \<and> runs_shutdown (RequestRejected (Error ''closed'') :: string event)
       (state_of (run [HelloOk, Tick 10000, TimerFired]
         (callGateway example_imports example_options :: (string, string) call)))
   \<and> ignoreClose (state_of (step (RequestRejected (Error ''closed''))
       (state_of (run [HelloOk, Tick 10000, TimerFired]
         (callGateway example_imports example_options :: (string, string) call)))))
   \<and> step (Close 1000 ''bye'')
        (state_of (run [Close 1006 ''''] (state_of (step (RequestRejected (Error ''closed''))
          (state_of (run [HelloOk, Tick 10000, TimerFired]
            (callGateway example_imports example_options :: (string, string) call)))))))
      = Normal (state_of (run [Close 1006 ''''] (state_of (step (RequestRejected (Error ''closed''))
          (state_of (run [HelloOk, Tick 10000, TimerFired]
            (callGateway example_imports example_options :: (string, string) call)))))))"
  using ignoreClose_monotone [of example_imports example_options
      "state_of (run [HelloOk, Tick 10000, TimerFired]
         (callGateway example_imports example_options :: (string, string) call))"
      "RequestRejected (Error ''closed'')" "[Close 1006 '''']" 1000 "''bye''"]
  by (simp add: callGateway_state examples prims handlers)

subsection \<open>Close notifications\<close>

text \<open>
  C5. When \<open>onClose(code, reason)\<close> runs in a state where the outcome is settled or
  \<open>ignoreClose\<close> is set, the handler returns at its guard: it does not throw, and the
  state and the trace stay as they were, so nothing is settled, cleared or stopped.
  Otherwise, in any state that an invocation can reach, it settles the outcome as a
  failure: it clears the timer and rejects with the error whose message is
  \<open>gateway closed (code): reason\<close>.
\<close>

theorem onClose_behaviour:
  "(settled s \<or> ignoreClose s \<longrightarrow> step (Close code reason) s = Normal s)
   \<and> (run es (callGateway im options) = Normal t \<and> \<not> settled t \<and> \<not> ignoreClose t \<longrightarrow>
        step (Close code reason) t =
          Normal (t\<lparr>settled := True, timer := Cleared,
                    trace := trace t @
                      [ClearTimeout,
                       Reject (Error (''gateway closed ('' @ number_toString code @ ''): ''
                                       @ reason))]\<rparr>))"
proof -
  have "step (Close code reason) s = Normal s" if "settled s \<or> ignoreClose s"
    using that by (simp add: onClose_def)
  moreover have "step (Close code reason) t =
      Normal (t\<lparr>settled := True, timer := Cleared,
                trace := trace t @ [ClearTimeout, Reject (close_error code reason)]\<rparr>)"
    if "run es (callGateway im options) = Normal t" "\<not> settled t"
    using inv_close [OF reachable_inv [OF that(1)] that(2)] .
  ultimately show ?thesis by (simp add: close_error_def)
qed

theorem onClose_behaviour_witness:
  "settled (state_of (run [Close 1006 ''abnormal'']
      (callGateway example_imports example_options :: (string, string) call)))
   \<and> step (Close 1006 ''abnormal'') (state_of (run [Close 1006 ''abnormal'']
      (callGateway example_imports example_options :: (string, string) call)))
     = Normal (state_of (run [Close 1006 ''abnormal'']
      (callGateway example_imports example_options :: (string, string) call)))
   \<and> run [HelloOk] (callGateway example_imports example_options :: (string, string) call)
       = Normal (state_of (run [HelloOk]
           (callGateway example_imports example_options :: (string, string) call)))
   \<and> \<not> settled (state_of (run [HelloOk]
           (callGateway example_imports example_options :: (string, string) call)))
   \<and> \<not> ignoreClose (state_of (run [HelloOk]
           (callGateway example_imports example_options :: (string, string) call)))
   \<and> settlements (trace (state_of (step (Close 1006 ''abnormal'') (state_of (run [HelloOk]
           (callGateway example_imports example_options :: (string, string) call))))))
       = [Reject (Error ''gateway closed (1006): abnormal'')]"
  using onClose_behaviour [where
      s = "state_of (run [Close 1006 ''abnormal'']
         (callGateway example_imports example_options :: (string, string) call))"
      and code = 1006 and reason = "''abnormal''" and es = "[HelloOk]"
      and im = example_imports and options = example_options
      and t = "state_of (run [HelloOk]
         (callGateway example_imports example_options :: (string, string) call))"]
  by (simp add: callGateway_state examples prims handlers settlements_def close_error_def
        number_toString_def digits.simps digit_char_def)

subsection \<open>The deadline\<close>

text \<open>
  C6, as the code has it. The claim that the timeout failure comes no earlier than
  \<open>timeoutMs\<close> fails for a \<open>timeoutMs\<close> above \<open>2^31 - 1\<close>: \<open>callGateway\<close> hands
  2147483648 to \<open>setTimeout\<close>, which arms a delay of 1 millisecond, and the call is
  rejected with the timeout error after 1 millisecond.
\<close>

theorem overflowing_timeout_fires_early:
  "timeout_of (example_options\<lparr>timeoutMs := Some 2147483648\<rparr>) = 2147483648
   \<and> run [HelloOk, Tick 1, TimerFired]
         (callGateway example_imports (example_options\<lparr>timeoutMs := Some 2147483648\<rparr>)
           :: (string, string) call)
     = Normal (state_of (run [HelloOk, Tick 1, TimerFired]
         (callGateway example_imports (example_options\<lparr>timeoutMs := Some 2147483648\<rparr>)
           :: (string, string) call)))
   \<and> settlements (trace (state_of (run [HelloOk, Tick 1, TimerFired]
         (callGateway example_imports (example_options\<lparr>timeoutMs := Some 2147483648\<rparr>)
           :: (string, string) call))))
       = [Reject (Error ''gateway timeout'')]
   \<and> int (now (state_of (run [HelloOk, Tick 1, TimerFired]
         (callGateway example_imports (example_options\<lparr>timeoutMs := Some 2147483648\<rparr>)
           :: (string, string) call)))) < 2147483648"
  by (simp add: callGateway_state examples prims handlers settlements_def)

text \<open>
  C6, amended. Let \<open>d\<close> be the \<open>timeoutMs\<close> of the options, or 10000 where it is
  omitted, and let \<open>d\<close> be at most \<open>2^31 - 1\<close>. The timer is armed at time 0 of the
  invocation and is due at \<open>d\<close>. In a state that the invocation has reached without
  settling, the timer is still pending with that due time. Before \<open>d\<close> the timer
  callback does not run, so no timeout failure can appear earlier. From \<open>d\<close> on it
  runs, and then it sets \<open>ignoreClose\<close>, calls \<open>client.stop()\<close>, clears the timer and
  rejects with \<open>Error("gateway timeout")\<close>: an error with this message only, whatever
  events (a request under way included) came before.
\<close>

theorem timeout_path:
  "((case timeoutMs options of None \<Rightarrow> 10000 | Some ms \<Rightarrow> ms) = d \<and> d \<le> 2147483647 \<longrightarrow>
      now (callGateway im options :: ('p, 'v) call) = 0
      \<and> timer (callGateway im options :: ('p, 'v) call) = Pending d)
   \<and> ((case timeoutMs options of None \<Rightarrow> 10000 | Some ms \<Rightarrow> ms) = d \<and> d \<le> 2147483647
        \<and> run es (callGateway im options) = Normal s \<and> \<not> settled s
        \<and> int (now s) < d \<longrightarrow>
          timer s = Pending d \<and> step TimerFired s = Normal s)
   \<and> ((case timeoutMs options of None \<Rightarrow> 10000 | Some ms \<Rightarrow> ms) = d \<and> d \<le> 2147483647
        \<and> run fs (callGateway im options) = Normal t \<and> \<not> settled t
        \<and> d \<le> int (now t) \<longrightarrow>
          timer t = Pending d
          \<and> step TimerFired t =
              Normal (t\<lparr>ignoreClose := True, settled := True, timer := Fired,
                        trace := trace t @ [MarkIgnoreClose, ClientStop, ClearTimeout,
                                            Reject (Error ''gateway timeout'')]\<rparr>))"
proof -
  have delay: "timer_delay (timeout_of options) = d"
    if "(case timeoutMs options of None \<Rightarrow> 10000 | Some ms \<Rightarrow> ms) = d" "d \<le> 2147483647"
    using that by (simp add: timer_delay_def TIMEOUT_MAX_def timeout_of_def nullish_def)
  have armed: "now (callGateway im options :: ('p, 'v) call) = 0
      \<and> timer (callGateway im options :: ('p, 'v) call) = Pending d"
    if "(case timeoutMs options of None \<Rightarrow> 10000 | Some ms \<Rightarrow> ms) = d" "d \<le> 2147483647"
    using delay [OF that] by (simp add: callGateway_state)
  have early: "timer s = Pending d \<and> step TimerFired s = Normal s"
    if c: "(case timeoutMs options of None \<Rightarrow> 10000 | Some ms \<Rightarrow> ms) = d" "d \<le> 2147483647"
      and r: "run es (callGateway im options) = Normal s" and u: "\<not> settled s"
      and n: "int (now s) < d"
  proof -
    from reachable_inv [OF r] delay [OF c] have i: "call_inv d s" by simp
    from inv_timer_early [OF i u n] i u show ?thesis by (simp add: call_inv_def)
  qed
  have due: "timer t = Pending d
      \<and> step TimerFired t =
          Normal (t\<lparr>ignoreClose := True, settled := True, timer := Fired,
                    trace := trace t @ [MarkIgnoreClose, ClientStop, ClearTimeout,
                                        Reject (Error ''gateway timeout'')]\<rparr>)"
    if c: "(case timeoutMs options of None \<Rightarrow> 10000 | Some ms \<Rightarrow> ms) = d" "d \<le> 2147483647"
      and r: "run fs (callGateway im options) = Normal t" and u: "\<not> settled t"
      and n: "d \<le> int (now t)"
  proof -
    from reachable_inv [OF r] delay [OF c] have i: "call_inv d t" by simp
    from inv_timer_fires [OF i u n] i u show ?thesis by (simp add: call_inv_def)
  qed
  from armed early due show ?thesis by blast
qed

theorem timeout_path_witness:
  "(case timeoutMs (example_options\<lparr>timeoutMs := Some 5000\<rparr>) of
      None \<Rightarrow> 10000 | Some ms \<Rightarrow> ms) = 5000
   \<and> (5000 :: int) \<le> 2147483647
   \<and> timer (callGateway example_imports (example_options\<lparr>timeoutMs := Some 5000\<rparr>)
        :: (string, string) call) = Pending 5000
   \<and> run [HelloOk, Tick 4999]
       (callGateway example_imports (example_options\<lparr>timeoutMs := Some 5000\<rparr>)
         :: (string, string) call)
     = Normal (state_of (run [HelloOk, Tick 4999]
         (callGateway example_imports (example_options\<lparr>timeoutMs := Some 5000\<rparr>)
           :: (string, string) call)))
   \<and> \<not> settled (state_of (run [HelloOk, Tick 4999]
         (callGateway example_imports (example_options\<lparr>timeoutMs := Some 5000\<rparr>)
           :: (string, string) call)))
   \<and> int (now (state_of (run [HelloOk, Tick 4999]
         (callGateway example_imports (example_options\<lparr>timeoutMs := Some 5000\<rparr>)
           :: (string, string) call)))) < 5000
   \<and> step TimerFired (state_of (run [HelloOk, Tick 4999]
         (callGateway example_imports (example_options\<lparr>timeoutMs := Some 5000\<rparr>)
           :: (string, string) call)))
     = Normal (state_of (run [HelloOk, Tick 4999]
         (callGateway example_imports (example_options\<lparr>timeoutMs := Some 5000\<rparr>)
           :: (string, string) call)))
   \<and> run [HelloOk, Tick 5000]
       (callGateway example_imports (example_options\<lparr>timeoutMs := Some 5000\<rparr>)
         :: (string, string) call)
     = Normal (state_of (run [HelloOk, Tick 5000]
         (callGateway example_imports (example_options\<lparr>timeoutMs := Some 5000\<rparr>)
           :: (string, string) call)))
   \<and> \<not> settled (state_of (run [HelloOk, Tick 5000]
         (callGateway example_imports (example_options\<lparr>timeoutMs := Some 5000\<rparr>)
           :: (string, string) call)))
   \<and> 5000 \<le> int (now (state_of (run [HelloOk, Tick 5000]
         (callGateway example_imports (example_options\<lparr>timeoutMs := Some 5000\<rparr>)
           :: (string, string) call))))
   \<and> settlements (trace (state_of (step TimerFired (state_of (run [HelloOk, Tick 5000]
         (callGateway example_imports (example_options\<lparr>timeoutMs := Some 5000\<rparr>)
           :: (string, string) call))))))
     = [Reject (Error ''gateway timeout'')]
   \<and> stop_calls (trace (state_of (step TimerFired (state_of (run [HelloOk, Tick 5000]
         (callGateway example_imports (example_options\<lparr>timeoutMs := Some 5000\<rparr>)
           :: (string, string) call)))))) = 1"
  using timeout_path [where im = example_imports
      and options = "example_options\<lparr>timeoutMs := Some 5000\<rparr>" and d = 5000
      and es = "[HelloOk, Tick 4999]"
      and s = "state_of (run [HelloOk, Tick 4999]
         (callGateway example_imports (example_options\<lparr>timeoutMs := Some 5000\<rparr>)
           :: (string, string) call))"
      and fs = "[HelloOk, Tick 5000]"
      and t = "state_of (run [HelloOk, Tick 5000]
         (callGateway example_imports (example_options\<lparr>timeoutMs := Some 5000\<rparr>)
           :: (string, string) call))"]
  by (simp add: callGateway_state examples prims handlers settlements_def stop_calls_def)

subsection \<open>A zero timeout\<close>

text \<open>
  C9. Only an omitted \<open>timeoutMs\<close> is replaced by 10000; any given number is kept, 0
  included. With \<open>timeoutMs = 0\<close> the timer is armed with delay 0 and is due in the very
  state that the body of \<open>callGateway\<close> leaves; in any state reached without settling,
  the timer callback runs and rejects with \<open>Error("gateway timeout")\<close>.
\<close>

theorem timeout_zero_is_kept:
  "timeout_of (options\<lparr>timeoutMs := None\<rparr>) = 10000
   \<and> timeout_of (options\<lparr>timeoutMs := Some ms\<rparr>) = ms
   \<and> trace (callGateway im (options\<lparr>timeoutMs := Some 0\<rparr>) :: ('p, 'v) call) ! 1 = SetTimeout 0
   \<and> timer_due (callGateway im (options\<lparr>timeoutMs := Some 0\<rparr>) :: ('p, 'v) call)
   \<and> (run es (callGateway im (options\<lparr>timeoutMs := Some 0\<rparr>)) = Normal s \<and> \<not> settled s \<longrightarrow>
        step TimerFired s =
          Normal (s\<lparr>ignoreClose := True, settled := True, timer := Fired,
                    trace := trace s @ [MarkIgnoreClose, ClientStop, ClearTimeout,
                                        Reject (Error ''gateway timeout'')]\<rparr>))"
proof -
  have z: "timer_delay (timeout_of (options\<lparr>timeoutMs := Some 0\<rparr>)) = 0"
    by (simp add: timeout_of_def nullish_def timer_delay_def TIMEOUT_MAX_def)
  have "step TimerFired s =
      Normal (s\<lparr>ignoreClose := True, settled := True, timer := Fired,
                trace := trace s @ [MarkIgnoreClose, ClientStop, ClearTimeout,
                                    Reject (Error ''gateway timeout'')]\<rparr>)"
    if r: "run es (callGateway im (options\<lparr>timeoutMs := Some 0\<rparr>)) = Normal s"
      and u: "\<not> settled s"
  proof -
    from reachable_inv [OF r] have "call_inv 0 s" by (simp add: z)
    from inv_timer_fires [OF this u] show ?thesis by simp
  qed
  then show ?thesis
    by (simp add: callGateway_state timer_due_def timeout_of_def nullish_def
          timer_delay_def TIMEOUT_MAX_def)
qed

theorem timeout_zero_is_kept_witness:
  "run [HelloOk] (callGateway example_imports (example_options\<lparr>timeoutMs := Some 0\<rparr>)
         :: (string, string) call)
     = Normal (state_of (run [HelloOk]
         (callGateway example_imports (example_options\<lparr>timeoutMs := Some 0\<rparr>)
           :: (string, string) call)))
   \<and> \<not> settled (state_of (run [HelloOk]
         (callGateway example_imports (example_options\<lparr>timeoutMs := Some 0\<rparr>)
           :: (string, string) call)))
   \<and> settlements (trace (state_of (step TimerFired (state_of (run [HelloOk]
         (callGateway example_imports (example_options\<lparr>timeoutMs := Some 0\<rparr>)
           :: (string, string) call))))))
     = [Reject (Error ''gateway timeout'')]"
  using timeout_zero_is_kept [where im = example_imports and options = example_options
      and es = "[HelloOk]"
      and s = "state_of (run [HelloOk]
         (callGateway example_imports (example_options\<lparr>timeoutMs := Some 0\<rparr>)
           :: (string, string) call))"]
  by (simp add: callGateway_state examples prims handlers settlements_def)

subsection \<open>Exactly one settlement\<close>

text \<open>
  C1. Whatever events follow the call, in whatever order: no callback throws; the trace
  holds at most one call of \<open>resolve\<close> or \<open>reject\<close>, and holds one exactly when
  \<open>settled\<close> is set; that call is accounted for by one of the events: resolved with the
  value of a fulfilled request (success), rejected with the error of a rejected request
  (application error), with the close error of a close notification, or with the
  timeout error of the timer. And once the delay has passed and the timer has had its
  turn, there is exactly one such call: the outcome cannot stay open.
\<close>

theorem settles_exactly_once:
  "\<exists>s. run es (callGateway im options) = Normal s
     \<and> length (settlements (trace s)) \<le> 1
     \<and> (settled s \<longleftrightarrow> length (settlements (trace s)) = 1)
     \<and> (\<forall>a\<in>set (settlements (trace s)). \<exists>e\<in>set es. explains e a)
     \<and> (timeout_of options \<le> int d \<longrightarrow>
          (\<exists>s'. run (es @ [Tick d, TimerFired]) (callGateway im options) = Normal s'
             \<and> settled s' \<and> length (settlements (trace s')) = 1))"
proof -
  let ?init = "callGateway im options :: ('a, 'b) call"
  from run_inv [OF init_inv] obtain s where
    s: "run es ?init = Normal s" "call_inv (timer_delay (timeout_of options)) s"
    by blast
  have none: "settlements (trace ?init) = []"
    by (simp add: callGateway_state settlements_def)
  from run_explains [OF s(1)] none
  have kinds: "\<forall>a\<in>set (settlements (trace s)). \<exists>e\<in>set es. explains e a"
    by simp
  have later: "\<exists>s'. run (es @ [Tick d, TimerFired]) ?init = Normal s'
      \<and> settled s' \<and> length (settlements (trace s')) = 1"
    if d: "timeout_of options \<le> int d"
  proof -
    from step_inv [OF s(2)] obtain s1 where
      s1: "step (Tick d) s = Normal s1" "call_inv (timer_delay (timeout_of options)) s1"
      by blast
    from s1(1) have "now s1 = now s + d" by auto
    with d timer_delay_le [of "timeout_of options"]
    have due: "timer_delay (timeout_of options) \<le> int (now s1)" by simp
    from step_inv [OF s1(2)] obtain s2 where
      s2: "step TimerFired s1 = Normal s2" "call_inv (timer_delay (timeout_of options)) s2"
      by blast
    from inv_due_settled [OF s1(2) due s2(1)] have "settled s2" .
    moreover from this inv_settlements [OF s2(2)]
    have "length (settlements (trace s2)) = 1" by simp
    moreover from s(1) s1(1) s2(1)
    have "run (es @ [Tick d, TimerFired]) ?init = Normal s2"
      by (simp add: run_append)
    ultimately show ?thesis by blast
  qed
  from s(1) inv_settlements [OF s(2)] kinds later show ?thesis by blast
qed

theorem settles_exactly_once_witness:
  "timeout_of example_options \<le> int 10000
   \<and> settlements (trace (state_of (run [HelloOk, RequestFulfilled ''pong'', Close 1000 '''']
        (callGateway example_imports example_options :: (string, string) call))))
      = [Resolve (Some ''pong'')]
   \<and> list_ex (\<lambda>e. explains e (Resolve (Some ''pong'') :: (string, string) action))
        [HelloOk, RequestFulfilled ''pong'', Close 1000 '''']
   \<and> settlements (trace (state_of
        (run ([HelloOk, RequestFulfilled ''pong'', Close 1000 ''''] @ [Tick 10000, TimerFired])
          (callGateway example_imports example_options :: (string, string) call))))
      = [Resolve (Some ''pong'')]"
  using settles_exactly_once [where im = example_imports and options = example_options
      and es = "[HelloOk, RequestFulfilled ''pong'', Close 1000 '''']" and d = 10000]
  by (simp add: callGateway_state examples prims handlers settlements_def)

subsection \<open>Stopping the client\<close>

text \<open>
  C2, as the code has it. The claim that \<open>client.stop()\<close> is called once on every exit
  path fails on the unexpected close: \<open>onClose\<close> settles the call without calling
  \<open>client.stop()\<close>.
\<close>

theorem unexpected_close_never_stops:
  "run [Close 1006 ''abnormal'']
       (callGateway example_imports example_options :: (string, string) call)
     = Normal (state_of (run [Close 1006 ''abnormal'']
         (callGateway example_imports example_options :: (string, string) call)))
   \<and> settled (state_of (run [Close 1006 ''abnormal'']
         (callGateway example_imports example_options :: (string, string) call)))
   \<and> settlements (trace (state_of (run [Close 1006 ''abnormal'']
         (callGateway example_imports example_options :: (string, string) call))))
       = [Reject (Error ''gateway closed (1006): abnormal'')]
   \<and> stop_calls (trace (state_of (run [Close 1006 ''abnormal'']
         (callGateway example_imports example_options :: (string, string) call)))) = 0"
  by (simp add: callGateway_state examples prims handlers settlements_def stop_calls_def
        close_error_def number_toString_def digits.simps digit_char_def)

text \<open>
  C2, amended. At the step that settles the call, \<open>client.stop()\<close> has been called
  exactly once if the call settles by success, request rejection or timeout, and not at
  all if it settles by an unexpected close; on every one of these paths the settling step
  calls \<open>clearTimeout\<close>, and the timer is no longer pending afterwards.
\<close>

theorem stop_calls_at_settlement:
  "run es (callGateway im options) = Normal s \<and> \<not> settled s
   \<and> step ev s = Normal s' \<and> settled s' \<longrightarrow>
     stop_calls (trace s') = (case ev of Close code reason \<Rightarrow> 0 | _ \<Rightarrow> 1)
     \<and> (\<exists>ext. trace s' = trace s @ ext \<and> ClearTimeout \<in> set ext)
     \<and> (timer s' = Cleared \<or> timer s' = Fired)"
  using settling_step [OF reachable_inv] by blast

theorem stop_calls_at_settlement_witness:
  "run [HelloOk] (callGateway example_imports example_options :: (string, string) call)
     = Normal (state_of (run [HelloOk]
         (callGateway example_imports example_options :: (string, string) call)))
   \<and> \<not> settled (state_of (run [HelloOk]
         (callGateway example_imports example_options :: (string, string) call)))
   \<and> step (RequestFulfilled ''pong'') (state_of (run [HelloOk]
         (callGateway example_imports example_options :: (string, string) call)))
     = Normal (state_of (step (RequestFulfilled ''pong'') (state_of (run [HelloOk]
         (callGateway example_imports example_options :: (string, string) call)))))
   \<and> settled (state_of (step (RequestFulfilled ''pong'') (state_of (run [HelloOk]
         (callGateway example_imports example_options :: (string, string) call)))))
   \<and> stop_calls (trace (state_of (step (RequestFulfilled ''pong'') (state_of (run [HelloOk]
         (callGateway example_imports example_options :: (string, string) call)))))) = 1
   \<and> timer (state_of (step (RequestFulfilled ''pong'') (state_of (run [HelloOk]
         (callGateway example_imports example_options :: (string, string) call))))) = Cleared"
  using stop_calls_at_settlement [where im = example_imports and options = example_options
      and es = "[HelloOk]"
      and s = "state_of (run [HelloOk]
         (callGateway example_imports example_options :: (string, string) call))"
      and ev = "RequestFulfilled ''pong''"
      and s' = "state_of (step (RequestFulfilled ''pong'') (state_of (run [HelloOk]
         (callGateway example_imports example_options :: (string, string) call))))"]
  by (simp add: callGateway_state examples prims handlers stop_calls_def)

subsection \<open>The flag is set before the client is stopped\<close>

text \<open>
  C3. Each callback that shuts the call down on the orchestrator's own account (timer
  callback, request fulfilled, request rejected) appends to the trace the assignment
  \<open>ignoreClose = true\<close> first and the one call of \<open>client.stop()\<close> somewhere after it,
  with no assignment of the flag after that call. The flag is set when the callback
  ends, so a close notification that follows is ignored.
\<close>

theorem flag_before_stop:
  "runs_shutdown ev s \<longrightarrow>
     (\<exists>mid post.
        trace (state_of (step ev s)) = trace s @ MarkIgnoreClose # mid @ ClientStop # post
        \<and> ClientStop \<notin> set mid \<and> ClientStop \<notin> set post \<and> MarkIgnoreClose \<notin> set post)
     \<and> ignoreClose (state_of (step ev s))
     \<and> step (Close code reason) (state_of (step ev s)) = Normal (state_of (step ev s))"
  using shutdown_trace [of ev s] shutdown_marks [of ev s]
  by (simp add: onClose_def)

theorem flag_before_stop_witness:
  "runs_shutdown (RequestFulfilled ''pong'') (state_of (run [HelloOk]
       (callGateway example_imports example_options :: (string, string) call)))
   \<and> trace (state_of (step (RequestFulfilled ''pong'') (state_of (run [HelloOk]
       (callGateway example_imports example_options :: (string, string) call)))))
     = trace (state_of (run [HelloOk]
         (callGateway example_imports example_options :: (string, string) call)))
       @ [MarkIgnoreClose, ClearTimeout, Resolve (Some ''pong''), ClientStop]
   \<and> step (Close 1000 '''') (state_of (step (RequestFulfilled ''pong'') (state_of (run [HelloOk]
       (callGateway example_imports example_options :: (string, string) call)))))
     = Normal (state_of (step (RequestFulfilled ''pong'') (state_of (run [HelloOk]
       (callGateway example_imports example_options :: (string, string) call)))))"
  using flag_before_stop [where ev = "RequestFulfilled ''pong''"
      and s = "state_of (run [HelloOk]
         (callGateway example_imports example_options :: (string, string) call))"
      and code = 1000 and reason = "''''"]
  by (simp add: callGateway_state examples prims handlers)

subsection \<open>The outcome of the request\<close>

text \<open>
  C4, as the code has it. The claim that a rejected request settles the call as a
  failure with that error fails when the call is settled already: the timer fires while
  the request is under way, the request is rejected afterwards, and the caller has the
  timeout error, not the error of the request.
\<close>

theorem late_rejection_is_dropped:
  "run [HelloOk, Tick 10000, TimerFired, RequestRejected (Error ''socket closed'')]
       (callGateway example_imports example_options :: (string, string) call)
     = Normal (state_of
         (run [HelloOk, Tick 10000, TimerFired, RequestRejected (Error ''socket closed'')]
           (callGateway example_imports example_options :: (string, string) call)))
   \<and> awaiting (state_of (run [HelloOk, Tick 10000, TimerFired]
         (callGateway example_imports example_options :: (string, string) call))) = 1
   \<and> settlements (trace (state_of
         (run [HelloOk, Tick 10000, TimerFired, RequestRejected (Error ''socket closed'')]
           (callGateway example_imports example_options :: (string, string) call))))
       = [Reject (Error ''gateway timeout'')]
   \<and> Reject (Error ''socket closed'') \<notin> set (trace (state_of
         (run [HelloOk, Tick 10000, TimerFired, RequestRejected (Error ''socket closed'')]
           (callGateway example_imports example_options :: (string, string) call))))"
  by (simp add: callGateway_state examples prims handlers settlements_def)

text \<open>
  C4, amended. When the promise of the request is fulfilled, the continuation of
  \<open>onHelloOk\<close> sets \<open>ignoreClose\<close>, calls the settling closure with the value and then
  \<open>client.stop()\<close>; when it is rejected, the continuation sets \<open>ignoreClose\<close>, calls
  \<open>client.stop()\<close> and then the settling closure with the error. If the outcome is not
  settled yet, the call resolves with exactly that value, or rejects with exactly that
  error. If it is settled already, the flag is set and \<open>client.stop()\<close> is called, and
  nothing is resolved or rejected.
\<close>

theorem request_outcome:
  "(run es (callGateway im options) = Normal s \<and> 0 < awaiting s \<and> \<not> settled s \<longrightarrow>
      step (RequestFulfilled v) s =
        Normal (s\<lparr>awaiting := awaiting s - 1, ignoreClose := True, settled := True,
                  timer := Cleared,
                  trace := trace s @ [MarkIgnoreClose, ClearTimeout, Resolve (Some v),
                                      ClientStop]\<rparr>)
      \<and> step (RequestRejected e) s =
        Normal (s\<lparr>awaiting := awaiting s - 1, ignoreClose := True, settled := True,
                  timer := Cleared,
                  trace := trace s @ [MarkIgnoreClose, ClientStop, ClearTimeout,
                                      Reject e]\<rparr>))
   \<and> (run fs (callGateway im options) = Normal t \<and> 0 < awaiting t \<and> settled t \<longrightarrow>
      step (RequestFulfilled v) t =
        Normal (t\<lparr>awaiting := awaiting t - 1, ignoreClose := True,
                  trace := trace t @ [MarkIgnoreClose, ClientStop]\<rparr>)
      \<and> step (RequestRejected e) t =
        Normal (t\<lparr>awaiting := awaiting t - 1, ignoreClose := True,
                  trace := trace t @ [MarkIgnoreClose, ClientStop]\<rparr>))"
proof -
  have "step (RequestFulfilled v) s =
        Normal (s\<lparr>awaiting := awaiting s - 1, ignoreClose := True, settled := True,
                  timer := Cleared,
                  trace := trace s @ [MarkIgnoreClose, ClearTimeout, Resolve (Some v),
                                      ClientStop]\<rparr>)
      \<and> step (RequestRejected e) s =
        Normal (s\<lparr>awaiting := awaiting s - 1, ignoreClose := True, settled := True,
                  timer := Cleared,
                  trace := trace s @ [MarkIgnoreClose, ClientStop, ClearTimeout,
                                      Reject e]\<rparr>)"
    if "run es (callGateway im options) = Normal s" "0 < awaiting s" "\<not> settled s"
    using inv_fulfilled [OF reachable_inv [OF that(1)] that(2), of v]
      inv_rejected [OF reachable_inv [OF that(1)] that(2), of e] that(3)
    by simp
  moreover have "step (RequestFulfilled v) t =
        Normal (t\<lparr>awaiting := awaiting t - 1, ignoreClose := True,
                  trace := trace t @ [MarkIgnoreClose, ClientStop]\<rparr>)
      \<and> step (RequestRejected e) t =
        Normal (t\<lparr>awaiting := awaiting t - 1, ignoreClose := True,
                  trace := trace t @ [MarkIgnoreClose, ClientStop]\<rparr>)"
    if "run fs (callGateway im options) = Normal t" "0 < awaiting t" "settled t"
    using inv_fulfilled [OF reachable_inv [OF that(1)] that(2), of v]
      inv_rejected [OF reachable_inv [OF that(1)] that(2), of e] that(3)
    by simp
  ultimately show ?thesis by blast
qed

theorem request_outcome_witness:
  "run [HelloOk] (callGateway example_imports example_options :: (string, string) call)
     = Normal (state_of (run [HelloOk]
         (callGateway example_imports example_options :: (string, string) call)))
   \<and> 0 < awaiting (state_of (run [HelloOk]
         (callGateway example_imports example_options :: (string, string) call)))
   \<and> \<not> settled (state_of (run [HelloOk]
         (callGateway example_imports example_options :: (string, string) call)))
   \<and> settlements (trace (state_of (step (RequestFulfilled ''pong'') (state_of (run [HelloOk]
         (callGateway example_imports example_options :: (string, string) call))))))
       = [Resolve (Some ''pong'')]
   \<and> settlements (trace (state_of (step (RequestRejected (Error ''unknown method''))
         (state_of (run [HelloOk]
           (callGateway example_imports example_options :: (string, string) call))))))
       = [Reject (Error ''unknown method'')]
   \<and> run [HelloOk, Tick 10000, TimerFired]
         (callGateway example_imports example_options :: (string, string) call)
     = Normal (state_of (run [HelloOk, Tick 10000, TimerFired]
         (callGateway example_imports example_options :: (string, string) call)))
   \<and> 0 < awaiting (state_of (run [HelloOk, Tick 10000, TimerFired]
         (callGateway example_imports example_options :: (string, string) call)))
   \<and> settled (state_of (run [HelloOk, Tick 10000, TimerFired]
         (callGateway example_imports example_options :: (string, string) call)))
   \<and> settlements (trace (state_of (step (RequestRejected (Error ''unknown method''))
         (state_of (run [HelloOk, Tick 10000, TimerFired]
           (callGateway example_imports example_options :: (string, string) call))))))
       = [Reject (Error ''gateway timeout'')]"
  using request_outcome [where im = example_imports and options = example_options
      and es = "[HelloOk]"
      and s = "state_of (run [HelloOk]
         (callGateway example_imports example_options :: (string, string) call))"
      and fs = "[HelloOk, Tick 10000, TimerFired]"
      and t = "state_of (run [HelloOk, Tick 10000, TimerFired]
         (callGateway example_imports example_options :: (string, string) call))"
      and v = "''pong''" and e = "Error ''unknown method''"]
  by (simp add: callGateway_state examples prims handlers settlements_def)

end
